theory Spec2Isabelle
  imports Complex_Main
begin

section \<open>The mail gateway: MailClient.py and mail_api.py\<close>

text \<open>
  The repository is a Flask gateway in front of an IMAP mailbox and an SMTP relay.
  Everything it does goes through four libraries: \<^verbatim>\<open>imaplib\<close>/\<^verbatim>\<open>smtplib\<close> (the servers),
  \<^verbatim>\<open>email\<close> (parsing and header decoding) and \<^verbatim>\<open>werkzeug\<close> (\<^verbatim>\<open>secure_filename\<close>).
  None of them is code of the repository, so each is a parameter of the model:
  the record \<open>lib\<close> holds the pure library functions, the records \<open>imap_server\<close> and
  \<open>smtp_server\<close> hold what each protocol call answers (a value, or the exception it
  raises). Every call made on a connection is appended to a trace of events; a Python
  exception is the \<open>Inl\<close> of a sum.

  Python \<^verbatim>\<open>str\<close> and \<^verbatim>\<open>bytes\<close> are both HOL strings (a \<^verbatim>\<open>str\<close> is read as its UTF-8
  bytes); \<^verbatim>\<open>bytes.decode(charset)\<close> is a library parameter since it may raise.
\<close>

subsection \<open>Data\<close>

type_synonym bytes = string

datatype exn =
    TypeError | IndexError | LookupError | UnicodeDecodeError | AttributeError
  | HTTPException nat | ServerError string

text \<open>One chunk value of \<^verbatim>\<open>email.header.decode_header\<close>: a \<^verbatim>\<open>str\<close> or a \<^verbatim>\<open>bytes\<close>.\<close>

datatype hvalue = Str string | Bytes bytes

text \<open>A MIME part as the handlers read it, one field per method they call.\<close>

record part =
  get_content_maintype :: string
  get_content_disposition :: "string option"
  get_filename :: "string option"
  get_payload :: "bytes option"
  get_content_type :: string

text \<open>
  A parsed message: \<^verbatim>\<open>msg['Subject']\<close>, \<^verbatim>\<open>msg.get('From')\<close>, \<^verbatim>\<open>msg.get('Date')\<close> (each
  \<^verbatim>\<open>None\<close> when the header is absent) and the parts \<^verbatim>\<open>msg.walk()\<close> visits, in order.
\<close>

record message =
  subject_hdr :: "string option"
  from_hdr :: "string option"
  date_hdr :: "string option"
  walk :: "part list"

record lib =
  message_from_bytes :: "bytes \<Rightarrow> message"
  decode_header :: "string \<Rightarrow> exn + (hvalue \<times> string option) list"
  bytes_decode :: "bytes \<Rightarrow> string \<Rightarrow> exn + string"
  secure_filename :: "string \<Rightarrow> string"

text \<open>
  \<^verbatim>\<open>msg_data\<close> as \<^verbatim>\<open>imaplib\<close> returns it from \<^verbatim>\<open>fetch\<close>: a list whose items are
  a pair (envelope line, literal) or \<^verbatim>\<open>None\<close>.
\<close>

type_synonym msg_data = "(bytes \<times> bytes) option list"

text \<open>
  The answers of the IMAP server. \<open>search_r folder\<close> stands for
  \<^verbatim>\<open>mail.search(None, 'ALL')\<close> followed by \<^verbatim>\<open>messages[0].split()\<close> in the selected
  folder: the identifiers in the server's (arrival) order, or the exception raised.
  \<open>fetch_r folder num spec\<close> is \<^verbatim>\<open>mail.fetch(num, spec)\<close>.
\<close>

record imap_server =
  connect_r :: "exn + unit"
  starttls_r :: "exn + unit"
  login_r :: "exn + unit"
  select_r :: "string \<Rightarrow> exn + unit"
  search_r :: "string \<Rightarrow> exn + bytes list"
  fetch_r :: "string \<Rightarrow> bytes \<Rightarrow> string \<Rightarrow> exn + msg_data"
  logout_r :: "exn + unit"

record smtp_server =
  smtp_connect_r :: "exn + unit"
  ehlo_r :: "exn + unit"
  smtp_starttls_r :: "exn + unit"
  smtp_login_r :: "exn + unit"
  sendmail_r :: "string \<Rightarrow> string \<Rightarrow> string \<Rightarrow> string \<Rightarrow> exn + unit"
  quit_r :: "exn + unit"

datatype event =
    EConnect | EStarttls | ELogin | ESelect string | ESearch | EFetch bytes string | ELogout
  | ESmtpConnect | ESmtpEhlo | ESmtpStarttls | ESmtpLogin | ESendmail string | ESmtpQuit

text \<open>The dictionaries appended by \<^verbatim>\<open>list_emails\<close> (no identifier), \<^verbatim>\<open>list_headers\<close>
  and the streaming endpoint.\<close>

record summary =
  s_email_id :: "string option"
  s_subject :: string
  s_from :: "string option"
  s_date :: "string option"

subsection \<open>Calls, exceptions and the trace\<close>

type_synonym 'a io = "event list \<Rightarrow> (exn + 'a) \<times> event list"

definition io_ret :: "'a \<Rightarrow> 'a io" where
  "io_ret x tr = (Inr x, tr)"

definition io_bind :: "'a io \<Rightarrow> ('a \<Rightarrow> 'b io) \<Rightarrow> 'b io" where
  "io_bind m f tr = (case m tr of (Inl e, tr') \<Rightarrow> (Inl e, tr') | (Inr x, tr') \<Rightarrow> f x tr')"

text \<open>A library call on a connection: logged, then its answer or its exception.\<close>

definition io_call :: "event \<Rightarrow> exn + 'a \<Rightarrow> 'a io" where
  "io_call ev r tr = (r, tr @ [ev])"

text \<open>A pure step that may raise.\<close>

definition io_lift :: "exn + 'a \<Rightarrow> 'a io" where
  "io_lift r tr = (r, tr)"

subsection \<open>Python primitives\<close>

text \<open>\<^verbatim>\<open>xs[i:]\<close> for an integer \<open>i\<close>: a negative start counts from the end, clamped at 0.\<close>

definition slice_from :: "'a list \<Rightarrow> int \<Rightarrow> 'a list" where
  "slice_from xs i =
     (if i < 0 then drop (nat (int (length xs) + i)) xs else drop (nat i) xs)"

text \<open>\<^verbatim>\<open>msg_data[0][1]\<close>: IndexError on an empty list, TypeError on a \<^verbatim>\<open>None\<close> item.\<close>

definition first_raw :: "msg_data \<Rightarrow> exn + bytes" where
  "first_raw msg_data =
     (case msg_data of
        [] \<Rightarrow> Inl IndexError
      | None # _ \<Rightarrow> Inl TypeError
      | Some (_, raw) # _ \<Rightarrow> Inr raw)"

text \<open>
  The idiom used for every header (MailClient.py 46-48, 74-76; mail_api.py 73-75,
  121-123, 182-184):
  \<^verbatim>\<open>
  value, encoding = decode_header(h)[0]
  if isinstance(value, bytes):
      value = value.decode(encoding if encoding else 'utf-8')
  \<close>
  Only element 0 of the chunk list is read.
\<close>

definition decode_first_chunk :: "lib \<Rightarrow> string \<Rightarrow> exn + string" where
  "decode_first_chunk L h =
     (case decode_header L h of
        Inl e \<Rightarrow> Inl e
      | Inr [] \<Rightarrow> Inl IndexError
      | Inr ((v, encoding) # _) \<Rightarrow>
          (case v of
             Str t \<Rightarrow> Inr t
           | Bytes b \<Rightarrow>
               bytes_decode L b
                 (case encoding of
                    None \<Rightarrow> ''utf-8''
                  | Some c \<Rightarrow> if c = [] then ''utf-8'' else c)))"

text \<open>
  \<^verbatim>\<open>decode_header(msg['Subject'])\<close>: when the header is absent \<^verbatim>\<open>msg['Subject']\<close> is
  \<^verbatim>\<open>None\<close> and \<^verbatim>\<open>decode_header(None)\<close> raises TypeError (its regular expression
  search is applied to \<^verbatim>\<open>None\<close>).
\<close>

definition decode_subject :: "lib \<Rightarrow> string option \<Rightarrow> exn + string" where
  "decode_subject L h =
     (case h of None \<Rightarrow> Inl TypeError | Some s \<Rightarrow> decode_first_chunk L s)"

subsection \<open>MailClient.py\<close>

definition connect_imap :: "imap_server \<Rightarrow> bool \<Rightarrow> unit io" where
  "connect_imap srv use_ssl =
     io_bind (io_call EConnect (connect_r srv)) (\<lambda>_.
     io_bind (if use_ssl then io_ret () else io_call EStarttls (starttls_r srv)) (\<lambda>_.
     io_call ELogin (login_r srv)))"

definition connect_smtp :: "smtp_server \<Rightarrow> unit io" where
  "connect_smtp sm =
     io_bind (io_call ESmtpConnect (smtp_connect_r sm)) (\<lambda>_.
     io_bind (io_call ESmtpEhlo (ehlo_r sm)) (\<lambda>_.
     io_bind (io_call ESmtpStarttls (smtp_starttls_r sm)) (\<lambda>_.
     io_call ESmtpLogin (smtp_login_r sm))))"

text \<open>The body of the loop of \<^verbatim>\<open>list_emails\<close> after the fetch (lines 43-57).\<close>

definition email_entry :: "lib \<Rightarrow> msg_data \<Rightarrow> exn + summary" where
  "email_entry L msg_data =
     (case first_raw msg_data of
        Inl e \<Rightarrow> Inl e
      | Inr raw_email \<Rightarrow>
          (let msg = message_from_bytes L raw_email in
           case decode_subject L (subject_hdr msg) of
             Inl e \<Rightarrow> Inl e
           | Inr subject \<Rightarrow>
               Inr \<lparr>s_email_id = None, s_subject = subject,
                    s_from = from_hdr msg, s_date = date_hdr msg\<rparr>))"

fun list_emails_loop ::
  "lib \<Rightarrow> imap_server \<Rightarrow> string \<Rightarrow> bytes list \<Rightarrow> summary list \<Rightarrow> summary list io" where
  "list_emails_loop L srv folder [] emails = io_ret emails"
| "list_emails_loop L srv folder (num # nums) emails =
     io_bind (io_call (EFetch num ''(RFC822)'') (fetch_r srv folder num ''(RFC822)''))
       (\<lambda>msg_data.
     io_bind (io_lift (email_entry L msg_data)) (\<lambda>entry.
     list_emails_loop L srv folder nums (emails @ [entry])))"

text \<open>
  \<^verbatim>\<open>list_emails\<close> (lines 34-60). There is no \<^verbatim>\<open>try\<close>: an exception anywhere leaves the
  function at once, and \<^verbatim>\<open>self.imap.logout()\<close> on line 59 is reached only when the loop
  finishes.
\<close>

definition list_emails ::
  "lib \<Rightarrow> imap_server \<Rightarrow> bool \<Rightarrow> string \<Rightarrow> int \<Rightarrow> summary list io" where
  "list_emails L srv use_ssl folder limit =
     io_bind (connect_imap srv use_ssl) (\<lambda>_.
     io_bind (io_call (ESelect folder) (select_r srv folder)) (\<lambda>_.
     io_bind (io_call ESearch (search_r srv folder)) (\<lambda>email_ids.
     io_bind (list_emails_loop L srv folder (slice_from email_ids (- limit)) []) (\<lambda>emails.
     io_bind (io_call ELogout (logout_r srv)) (\<lambda>_.
     io_ret emails)))))"

text \<open>The body of the loop of \<^verbatim>\<open>list_headers\<close> (lines 71-86); the identifier is
  decoded last, when the dictionary is built.\<close>

definition header_entry :: "lib \<Rightarrow> bytes \<Rightarrow> msg_data \<Rightarrow> exn + summary" where
  "header_entry L num msg_data =
     (case first_raw msg_data of
        Inl e \<Rightarrow> Inl e
      | Inr raw_email \<Rightarrow>
          (let msg = message_from_bytes L raw_email in
           case decode_subject L (subject_hdr msg) of
             Inl e \<Rightarrow> Inl e
           | Inr subject \<Rightarrow>
               (case bytes_decode L num ''utf-8'' of
                  Inl e \<Rightarrow> Inl e
                | Inr email_id \<Rightarrow>
                    Inr \<lparr>s_email_id = Some email_id, s_subject = subject,
                         s_from = from_hdr msg, s_date = date_hdr msg\<rparr>)))"

definition header_spec :: string where
  "header_spec = ''(BODY[HEADER.FIELDS (SUBJECT FROM DATE FROM)])''"

fun list_headers_loop ::
  "lib \<Rightarrow> imap_server \<Rightarrow> string \<Rightarrow> bytes list \<Rightarrow> summary list \<Rightarrow> summary list io" where
  "list_headers_loop L srv folder [] emails = io_ret emails"
| "list_headers_loop L srv folder (num # nums) emails =
     io_bind (io_call (EFetch num header_spec) (fetch_r srv folder num header_spec))
       (\<lambda>msg_data.
     io_bind (io_lift (header_entry L num msg_data)) (\<lambda>entry.
     list_headers_loop L srv folder nums (emails @ [entry])))"

definition list_headers ::
  "lib \<Rightarrow> imap_server \<Rightarrow> bool \<Rightarrow> string \<Rightarrow> int \<Rightarrow> summary list io" where
  "list_headers L srv use_ssl folder limit =
     io_bind (connect_imap srv use_ssl) (\<lambda>_.
     io_bind (io_call (ESelect folder) (select_r srv folder)) (\<lambda>_.
     io_bind (io_call ESearch (search_r srv folder)) (\<lambda>email_ids.
     io_bind (list_headers_loop L srv folder (slice_from email_ids (- limit)) []) (\<lambda>emails.
     io_bind (io_call ELogout (logout_r srv)) (\<lambda>_.
     io_ret emails)))))"

text \<open>
  \<^verbatim>\<open>send_email\<close> (lines 91-102). Building the MIME message is pure; \<open>sendmail_r\<close>
  receives the recipient and the three things the message is built from.
\<close>

definition send_email :: "smtp_server \<Rightarrow> string \<Rightarrow> string \<Rightarrow> string \<Rightarrow> string \<Rightarrow> unit io" where
  "send_email sm to_address subject body subtype =
     io_bind (connect_smtp sm) (\<lambda>_.
     io_bind (io_call (ESendmail to_address) (sendmail_r sm to_address subject body subtype))
       (\<lambda>_.
     io_call ESmtpQuit (quit_r sm)))"

subsection \<open>mail_api.py: responses\<close>

text \<open>The fixed error texts of the handlers (two of them are not ASCII in the source),
  and \<^verbatim>\<open>str(e)\<close> of a caught exception.\<close>

datatype err_msg =
    MissingRequiredFields | MissingEmailId | MissingEmailIdOrFilename
  | CannotFetchMail | EmptyAttachment | AttachmentNotFound | ExnText exn

record attachment_info =
  a_filename :: string
  a_size_kb :: rat
  a_mime_type :: string

text \<open>What a handler returns: \<^verbatim>\<open>jsonify({'error': ...}), status\<close>,
  \<^verbatim>\<open>jsonify({'message': ...})\<close>, \<^verbatim>\<open>jsonify(attachments)\<close>, or
  \<^verbatim>\<open>send_file(BytesIO(data), mimetype=..., download_name=...)\<close>.\<close>

datatype response =
    JsonError err_msg nat
  | JsonMessage string
  | Manifest "attachment_info list"
  | SendFile bytes "string option" string

text \<open>
  A JSON value as \<^verbatim>\<open>request.json\<close> parses it: \<^verbatim>\<open>null\<close> is Python's \<^verbatim>\<open>None\<close>, an
  object is a \<^verbatim>\<open>dict\<close> (written in document order; of two members with one key the
  later one is kept), an array a \<^verbatim>\<open>list\<close>.
\<close>

datatype jval =
    JNull | JBool bool | JNum rat | JStr string
  | JArr "jval list" | JObj "(string \<times> jval) list"

text \<open>\<^verbatim>\<open>d.get(k)\<close> on a \<^verbatim>\<open>dict\<close>: \<^verbatim>\<open>None\<close> when the key is absent.\<close>

definition dict_get :: "(string \<times> jval) list \<Rightarrow> string \<Rightarrow> jval" where
  "dict_get kvs k = (case map_of (rev kvs) k of None \<Rightarrow> JNull | Some v \<Rightarrow> v)"

text \<open>\<^verbatim>\<open>data.get(k)\<close> on what the body parsed to: only a \<^verbatim>\<open>dict\<close> has \<^verbatim>\<open>get\<close>; on
  \<^verbatim>\<open>None\<close>, a \<^verbatim>\<open>bool\<close>, a number, a \<^verbatim>\<open>str\<close> or a \<^verbatim>\<open>list\<close> the attribute lookup raises
  AttributeError.\<close>

definition py_get :: "jval \<Rightarrow> string \<Rightarrow> exn + jval" where
  "py_get data k = (case data of JObj kvs \<Rightarrow> Inr (dict_get kvs k) | _ \<Rightarrow> Inl AttributeError)"

text \<open>Python's truth value of a parsed JSON value: \<^verbatim>\<open>not v\<close> is true of \<^verbatim>\<open>None\<close>,
  \<^verbatim>\<open>False\<close>, zero, and the empty string, list and dict.\<close>

fun jtruthy :: "jval \<Rightarrow> bool" where
  "jtruthy JNull = False"
| "jtruthy (JBool b) = b"
| "jtruthy (JNum n) = (n \<noteq> 0)"
| "jtruthy (JStr s) = (s \<noteq> [])"
| "jtruthy (JArr vs) = (vs \<noteq> [])"
| "jtruthy (JObj kvs) = (kvs \<noteq> [])"

text \<open>A query argument (\<^verbatim>\<open>request.args.get\<close>) is \<^verbatim>\<open>None\<close> or a string: \<^verbatim>\<open>not v\<close> is
  true of \<^verbatim>\<open>None\<close> and of the empty string.\<close>

definition truthy :: "string option \<Rightarrow> bool" where
  "truthy v = (case v of None \<Rightarrow> False | Some s \<Rightarrow> s \<noteq> [])"

subsection \<open>mail_api.py: /sendmail\<close>

text \<open>
  \<^verbatim>\<open>mail_client.send_email(to_address, subject, body)\<close> on the JSON values as they are.
  On three strings it is \<open>send_email\<close> with the default subtype. A value that is not a
  string gets past the check of line 38 when it is truthy; \<^verbatim>\<open>send_email\<close> then
  connects (line 92) and the email library raises AttributeError (the value has no
  \<^verbatim>\<open>encode\<close>) while the message is built or serialised (lines 96-101), before
  \<^verbatim>\<open>sendmail\<close> is called.
\<close>

definition send_email_call :: "smtp_server \<Rightarrow> jval \<Rightarrow> jval \<Rightarrow> jval \<Rightarrow> unit io" where
  "send_email_call sm to_address subject body =
     (case (to_address, subject, body) of
        (JStr t, JStr s, JStr b) \<Rightarrow> send_email sm t s b ''plain''
      | _ \<Rightarrow> io_bind (connect_smtp sm) (\<lambda>_. io_lift (Inl AttributeError)))"

text \<open>
  Lines 32-45. \<open>request_json\<close> is what evaluating \<^verbatim>\<open>request.json\<close> gives: the parsed
  body, or the exception Flask raises for a body it cannot read as JSON. That exception
  and the AttributeError of \<^verbatim>\<open>data.get\<close> on a body that is not an object are raised
  before the \<^verbatim>\<open>try\<close>, so they leave the handler (\<open>Inl\<close>: Flask answers them itself,
  the latter with a 500).
\<close>

definition send_mail ::
  "smtp_server \<Rightarrow> exn + jval \<Rightarrow> event list \<Rightarrow> (exn + response) \<times> event list" where
  "send_mail sm request_json tr =
     (case request_json of
        Inl e \<Rightarrow> (Inl e, tr)
      | Inr data \<Rightarrow>
          (case py_get data ''to'' of
             Inl e \<Rightarrow> (Inl e, tr)
           | Inr to_address \<Rightarrow>
               (case py_get data ''subject'' of
                  Inl e \<Rightarrow> (Inl e, tr)
                | Inr subject \<Rightarrow>
                    (case py_get data ''body'' of
                       Inl e \<Rightarrow> (Inl e, tr)
                     | Inr body \<Rightarrow>
                         if \<not> jtruthy to_address \<or> \<not> jtruthy subject \<or> \<not> jtruthy body
                         then (Inr (JsonError MissingRequiredFields 400), tr)
                         else
                           (case send_email_call sm to_address subject body tr of
                              (Inr _, tr') \<Rightarrow> (Inr (JsonMessage ''Email sent successfully''), tr')
                            | (Inl e, tr') \<Rightarrow> (Inr (JsonError (ExnText e) 500), tr'))))))"

subsection \<open>mail_api.py: /listmails\<close>

text \<open>What the generator yields: \<^verbatim>\<open>'['\<close>, \<^verbatim>\<open>','\<close>, \<^verbatim>\<open>']'\<close>,
  \<^verbatim>\<open>json.dumps(email_info)\<close> and \<^verbatim>\<open>json.dumps({'error': str(e)})\<close>.\<close>

datatype chunk = Open | Comma | Close | Item summary | ErrorObj exn

definition stream_spec :: string where
  "stream_spec = ''(BODY[HEADER.FIELDS (SUBJECT FROM DATE)])''"

text \<open>Lines 68-85, the inner \<^verbatim>\<open>try\<close> after the fetch: \<open>Inr None\<close> is the
  \<^verbatim>\<open>continue\<close> on an empty literal.\<close>

definition stream_entry :: "lib \<Rightarrow> bytes \<Rightarrow> msg_data \<Rightarrow> exn + summary option" where
  "stream_entry L eid msg_data =
     (case first_raw msg_data of
        Inl e \<Rightarrow> Inl e
      | Inr raw_email \<Rightarrow>
          if raw_email = [] then Inr None
          else
            (let msg = message_from_bytes L raw_email in
             case decode_subject L (subject_hdr msg) of
               Inl e \<Rightarrow> Inl e
             | Inr subject \<Rightarrow>
                 (case bytes_decode L eid ''utf-8'' of
                    Inl e \<Rightarrow> Inl e
                  | Inr email_id \<Rightarrow>
                      Inr (Some \<lparr>s_email_id = Some email_id, s_subject = subject,
                                 s_from = from_hdr msg, s_date = date_hdr msg\<rparr>))))"

text \<open>The inner \<^verbatim>\<open>try\<close> of one iteration: the fetch, then \<open>stream_entry\<close>.\<close>

definition stream_item :: "lib \<Rightarrow> imap_server \<Rightarrow> bytes \<Rightarrow> summary option io" where
  "stream_item L srv eid =
     io_bind (io_call (EFetch eid stream_spec) (fetch_r srv ''inbox'' eid stream_spec))
       (\<lambda>msg_data. io_lift (stream_entry L eid msg_data))"

text \<open>Lines 62-88. The comma is yielded before the \<^verbatim>\<open>try\<close>; \<^verbatim>\<open>except Exception:
  continue\<close> and the \<^verbatim>\<open>continue\<close> on an empty literal both go to the next identifier
  with nothing more yielded.\<close>

fun generate_loop ::
  "lib \<Rightarrow> imap_server \<Rightarrow> bytes list \<Rightarrow> bool \<Rightarrow> chunk list \<Rightarrow> event list
     \<Rightarrow> chunk list \<times> event list" where
  "generate_loop L srv [] first out tr = (out, tr)"
| "generate_loop L srv (eid # eids) first out tr =
     (let out1 = (if \<not> first then out @ [Comma] else out) in
      case stream_item L srv eid tr of
        (Inr (Some email_info), tr1) \<Rightarrow>
          generate_loop L srv eids False (out1 @ [Item email_info]) tr1
      | (Inr None, tr1) \<Rightarrow> generate_loop L srv eids False out1 tr1
      | (Inl e, tr1) \<Rightarrow> generate_loop L srv eids False out1 tr1)"

text \<open>Lines 51-93. An exception before \<^verbatim>\<open>yield '['\<close> leaves only the error object;
  the window is \<^verbatim>\<open>[-10:]\<close> whatever the request's \<^verbatim>\<open>limit\<close> is.\<close>

definition generate :: "lib \<Rightarrow> imap_server \<Rightarrow> event list \<Rightarrow> chunk list \<times> event list" where
  "generate L srv tr =
     (case io_bind (io_call EConnect (connect_r srv)) (\<lambda>_.
           io_bind (io_call ELogin (login_r srv)) (\<lambda>_.
           io_call (ESelect ''inbox'') (select_r srv ''inbox''))) tr of
        (Inl e, tr1) \<Rightarrow> ([ErrorObj e], tr1)
      | (Inr _, tr1) \<Rightarrow>
          (case io_call ESearch (search_r srv ''inbox'') tr1 of
             (Inl e, tr2) \<Rightarrow> ([Open, ErrorObj e], tr2)
           | (Inr email_ids, tr2) \<Rightarrow>
               (case generate_loop L srv (slice_from email_ids (- 10)) True [Open] tr2 of
                  (out, tr3) \<Rightarrow>
                    (case io_call ELogout (logout_r srv) tr3 of
                       (Inl e, tr4) \<Rightarrow> (out @ [Close, ErrorObj e], tr4)
                     | (Inr _, tr4) \<Rightarrow> (out @ [Close], tr4)))))"

text \<open>\<^verbatim>\<open>list_mails\<close> reads \<^verbatim>\<open>limit\<close> from the query (default 5) and never uses it.\<close>

definition list_mails :: "lib \<Rightarrow> imap_server \<Rightarrow> int \<Rightarrow> event list \<Rightarrow> chunk list \<times> event list" where
  "list_mails L srv limit tr = generate L srv tr"

subsection \<open>mail_api.py: /list_attachments\<close>

text \<open>
  \<^verbatim>\<open>round(a / b, 2)\<close> in hundredths, for \<open>b\<close> a power of two: \<^verbatim>\<open>a / b\<close> is then exact
  in binary floating point (for \<open>a\<close> below \<open>2^53\<close>), and Python rounds the exact value of a
  float to the nearest hundredth, a tie to the even one. The model keeps the decimal
  that is rounded to (the float returned is the double nearest to it, and prints as it).
\<close>

definition round_half_even_div :: "int \<Rightarrow> int \<Rightarrow> int" where
  "round_half_even_div a b =
     (let q = a div b; r = a mod b in
      if 2 * r < b then q
      else if 2 * r > b then q + 1
      else if even q then q else q + 1)"

definition py_round2_div1024 :: "nat \<Rightarrow> rat" where
  "py_round2_div1024 n = of_int (round_half_even_div (int n * 100) 1024) / 100"

text \<open>\<^verbatim>\<open>len(part.get_payload(decode=True)) if part.get_payload(decode=True) else 0\<close>\<close>

definition payload_size :: "part \<Rightarrow> nat" where
  "payload_size p =
     (case get_payload p of None \<Rightarrow> 0 | Some d \<Rightarrow> if d = [] then 0 else length d)"

fun attachments_loop :: "lib \<Rightarrow> part list \<Rightarrow> attachment_info list \<Rightarrow> exn + attachment_info list" where
  "attachments_loop L [] attachments = Inr attachments"
| "attachments_loop L (p # ps) attachments =
     (if get_content_maintype p = ''multipart'' then attachments_loop L ps attachments
      else if get_content_disposition p = None then attachments_loop L ps attachments
      else
        (case get_filename p of
           None \<Rightarrow> attachments_loop L ps attachments
         | Some part_filename \<Rightarrow>
             if part_filename = [] then attachments_loop L ps attachments
             else
               (case decode_first_chunk L part_filename of
                  Inl e \<Rightarrow> Inl e
                | Inr decoded \<Rightarrow>
                    attachments_loop L ps
                      (attachments @
                         [\<lparr>a_filename = secure_filename L decoded,
                           a_size_kb = py_round2_div1024 (payload_size p),
                           a_mime_type = get_content_type p\<rparr>]))))"

text \<open>Lines 105-134, the \<^verbatim>\<open>try\<close> body once \<^verbatim>\<open>mail\<close> is bound.\<close>

definition list_attachments_body ::
  "lib \<Rightarrow> imap_server \<Rightarrow> string \<Rightarrow> attachment_info list io" where
  "list_attachments_body L srv email_id =
     io_bind (io_call ELogin (login_r srv)) (\<lambda>_.
     io_bind (io_call (ESelect ''inbox'') (select_r srv ''inbox'')) (\<lambda>_.
     io_bind (io_call (EFetch email_id ''(RFC822)'')
                (fetch_r srv ''inbox'' email_id ''(RFC822)'')) (\<lambda>msg_data.
     io_lift
       (case first_raw msg_data of
          Inl e \<Rightarrow> Inl e
        | Inr raw_email \<Rightarrow> attachments_loop L (walk (message_from_bytes L raw_email)) []))))"

text \<open>
  Lines 98-141. When the constructor \<^verbatim>\<open>imaplib.IMAP4_SSL\<close> raises, \<^verbatim>\<open>mail\<close> is unbound
  and the \<^verbatim>\<open>mail.logout()\<close> of the \<^verbatim>\<open>finally\<close> raises a NameError that the bare
  \<^verbatim>\<open>except\<close> swallows: no logout is sent. Otherwise the \<^verbatim>\<open>finally\<close> calls
  \<^verbatim>\<open>mail.logout()\<close> once, whatever the body did, and swallows what it raises.
\<close>

definition list_attachments ::
  "lib \<Rightarrow> imap_server \<Rightarrow> string option \<Rightarrow> event list \<Rightarrow> response \<times> event list" where
  "list_attachments L srv email_id tr =
     (if \<not> truthy email_id then (JsonError MissingEmailId 400, tr)
      else
        (case io_call EConnect (connect_r srv) tr of
           (Inl e, tr1) \<Rightarrow> (JsonError (ExnText e) 500, tr1)
         | (Inr _, tr1) \<Rightarrow>
             (case list_attachments_body L srv (case email_id of Some i \<Rightarrow> i | None \<Rightarrow> []) tr1 of
                (r, tr2) \<Rightarrow>
                  (case r of
                     Inl e \<Rightarrow> JsonError (ExnText e) 500
                   | Inr attachments \<Rightarrow> Manifest attachments,
                   snd (io_call ELogout (logout_r srv) tr2)))))"

subsection \<open>mail_api.py: /download_attachment\<close>

type_synonym cache = "string \<rightharpoonup> bytes"

text \<open>\<^verbatim>\<open>cache_key = f"{email_id}_{filename}"\<close>, from the two request arguments as given.\<close>

definition cache_key :: "string \<Rightarrow> string \<Rightarrow> string" where
  "cache_key email_id fname = email_id @ ''_'' @ fname"

datatype dl_result = DlFound bytes string | DlEmpty | DlMissing | DlNoContent

text \<open>Lines 174-208: the first part whose sanitized name equals the requested one
  decides; \<^verbatim>\<open>part.get_content_type() or 'application/octet-stream'\<close>.\<close>

fun download_loop :: "lib \<Rightarrow> part list \<Rightarrow> string \<Rightarrow> exn + dl_result" where
  "download_loop L [] fname = Inr DlMissing"
| "download_loop L (p # ps) fname =
     (if get_content_maintype p = ''multipart'' then download_loop L ps fname
      else if get_content_disposition p = None then download_loop L ps fname
      else
        (case get_filename p of
           None \<Rightarrow> download_loop L ps fname
         | Some part_filename \<Rightarrow>
             if part_filename = [] then download_loop L ps fname
             else
               (case decode_first_chunk L part_filename of
                  Inl e \<Rightarrow> Inl e
                | Inr decoded \<Rightarrow>
                    if secure_filename L decoded = fname
                    then
                      (case get_payload p of
                         None \<Rightarrow> Inr DlEmpty
                       | Some data \<Rightarrow>
                           if data = [] then Inr DlEmpty
                           else Inr (DlFound data
                                  (if get_content_type p = [] then ''application/octet-stream''
                                   else get_content_type p)))
                    else download_loop L ps fname)))"

text \<open>Lines 158-208, the \<^verbatim>\<open>try\<close> body once \<^verbatim>\<open>mail\<close> is bound.
  \<^verbatim>\<open>email_id.encode('utf-8')\<close> is the identity on the model's strings.\<close>

definition download_body :: "lib \<Rightarrow> imap_server \<Rightarrow> string \<Rightarrow> string \<Rightarrow> dl_result io" where
  "download_body L srv email_id fname =
     io_bind (io_call ELogin (login_r srv)) (\<lambda>_.
     io_bind (io_call (ESelect ''inbox'') (select_r srv ''inbox'')) (\<lambda>_.
     io_bind (io_call (EFetch email_id ''(RFC822)'')
                (fetch_r srv ''inbox'' email_id ''(RFC822)'')) (\<lambda>msg_data.
     io_lift
       (case msg_data of
          [] \<Rightarrow> Inr DlNoContent
        | None # _ \<Rightarrow> Inr DlNoContent
        | Some (_, raw_email) # _ \<Rightarrow>
            download_loop L (walk (message_from_bytes L raw_email)) fname))))"

text \<open>
  Lines 144-218. The cache is looked up under \<open>cache_key\<close> before anything else; a hit
  answers from the cache with no connection. The store on line 192 uses the same key.
  The \<^verbatim>\<open>finally\<close> is that of \<open>list_attachments\<close>.
\<close>

definition download_attachment ::
  "lib \<Rightarrow> imap_server \<Rightarrow> cache \<Rightarrow> string option \<Rightarrow> string option \<Rightarrow> event list
     \<Rightarrow> response \<times> cache \<times> event list" where
  "download_attachment L srv attachments_cache email_id filename tr =
     (if \<not> truthy email_id \<or> \<not> truthy filename
      then (JsonError MissingEmailIdOrFilename 400, attachments_cache, tr)
      else
        (let eid = (case email_id of Some i \<Rightarrow> i | None \<Rightarrow> []);
             fname = (case filename of Some f \<Rightarrow> f | None \<Rightarrow> [])
         in case attachments_cache (cache_key eid fname) of
              Some cached \<Rightarrow> (SendFile cached None fname, attachments_cache, tr)
            | None \<Rightarrow>
                (case io_call EConnect (connect_r srv) tr of
                   (Inl e, tr1) \<Rightarrow> (JsonError (ExnText e) 500, attachments_cache, tr1)
                 | (Inr _, tr1) \<Rightarrow>
                     (case download_body L srv eid fname tr1 of
                        (r, tr2) \<Rightarrow>
                          (let tr3 = snd (io_call ELogout (logout_r srv) tr2) in
                           case r of
                             Inl e \<Rightarrow> (JsonError (ExnText e) 500, attachments_cache, tr3)
                           | Inr DlNoContent \<Rightarrow>
                               (JsonError CannotFetchMail 404, attachments_cache, tr3)
                           | Inr DlEmpty \<Rightarrow>
                               (JsonError EmptyAttachment 404, attachments_cache, tr3)
                           | Inr DlMissing \<Rightarrow>
                               (JsonError AttachmentNotFound 404, attachments_cache, tr3)
                           | Inr (DlFound data mime_type) \<Rightarrow>
                               (SendFile data (Some mime_type) fname,
                                attachments_cache(cache_key eid fname \<mapsto> data), tr3))))))"

subsection \<open>A concrete library and mailbox\<close>

text \<open>
  \<^verbatim>\<open>werkzeug.utils.secure_filename\<close> on POSIX, as its source computes it: drop what is
  not ASCII, turn \<^verbatim>\<open>/\<close> into a space, join the whitespace-separated words with \<^verbatim>\<open>_\<close>,
  delete every character outside \<^verbatim>\<open>[A-Za-z0-9_.-]\<close>, strip \<^verbatim>\<open>.\<close> and \<^verbatim>\<open>_\<close> from both ends.
  It instantiates the parameter \<open>secure_filename\<close> in the closed examples below.
\<close>

definition is_space :: "char \<Rightarrow> bool" where
  "is_space c = (c \<in> set [CHR '' '', CHR 0x09, CHR 0x0A, CHR 0x0B, CHR 0x0C, CHR 0x0D,
                            CHR 0x1C, CHR 0x1D, CHR 0x1E, CHR 0x1F])"

definition safe_char :: "char \<Rightarrow> bool" where
  "safe_char c =
     (c \<in> set ''ABCDEFGHIJKLMNOPQRSTUVWXYZabcdefghijklmnopqrstuvwxyz0123456789_.-'')"

fun split_ws :: "string \<Rightarrow> string \<Rightarrow> string list" where
  "split_ws [] w = (if w = [] then [] else [w])"
| "split_ws (c # cs) w =
     (if is_space c then (if w = [] then split_ws cs [] else w # split_ws cs [])
      else split_ws cs (w @ [c]))"

fun join_underscore :: "string list \<Rightarrow> string" where
  "join_underscore [] = []"
| "join_underscore [w] = w"
| "join_underscore (w # ws) = w @ ''_'' @ join_underscore ws"

definition strip_dots :: "string \<Rightarrow> string" where
  "strip_dots s =
     rev (dropWhile (\<lambda>c. c = CHR ''.'' \<or> c = CHR ''_'')
       (rev (dropWhile (\<lambda>c. c = CHR ''.'' \<or> c = CHR ''_'') s)))"

definition secure_filename_posix :: "string \<Rightarrow> string" where
  "secure_filename_posix s =
     strip_dots (filter safe_char (join_underscore (split_ws
       (map (\<lambda>c. if c = CHR ''/'' then CHR '' '' else c)
          (filter (\<lambda>c. (of_char c :: nat) < 128) s)) [])))"

text \<open>
  The example mailbox. The literal of message \<open>n\<close> is \<open>m\<close> followed by \<open>n\<close>, and the
  parser is a table on these literals: message 3 has no Subject header, message 6
  carries an attachment whose wire name is \<^verbatim>\<open>../a.txt\<close>, message 7 one of 12345 bytes,
  message 8 a Subject made of a plain chunk and an encoded word; every other message
  is a plain text with the three headers. Fetching message 9 raises.
\<close>

definition text_part :: part where
  "text_part = \<lparr>get_content_maintype = ''text'', get_content_disposition = None,
                get_filename = None, get_payload = Some ''hello'',
                get_content_type = ''text/plain''\<rparr>"

definition root_part :: part where
  "root_part = \<lparr>get_content_maintype = ''multipart'', get_content_disposition = None,
                get_filename = None, get_payload = None,
                get_content_type = ''multipart/mixed''\<rparr>"

definition file_part :: "string \<Rightarrow> bytes \<Rightarrow> part" where
  "file_part name data =
     \<lparr>get_content_maintype = ''application'',
      get_content_disposition = Some ''attachment'',
      get_filename = Some name, get_payload = Some data,
      get_content_type = ''application/pdf''\<rparr>"

definition example_parse :: "bytes \<Rightarrow> message" where
  "example_parse raw =
     (if raw = ''m3'' then
        \<lparr>subject_hdr = None, from_hdr = Some ''a@example.org'', date_hdr = None,
         walk = [text_part]\<rparr>
      else if raw = ''m6'' then
        \<lparr>subject_hdr = Some ''files'', from_hdr = Some ''a@example.org'', date_hdr = None,
         walk = [root_part, text_part, file_part ''../a.txt'' ''DATA'']\<rparr>
      else if raw = ''m7'' then
        \<lparr>subject_hdr = Some ''big'', from_hdr = Some ''a@example.org'', date_hdr = None,
         walk = [root_part, text_part, file_part ''big.bin'' (replicate 12345 (CHR ''x''))]\<rparr>
      else if raw = ''m8'' then
        \<lparr>subject_hdr = Some ''Re: =?utf-8?q?Hello?='', from_hdr = Some ''a@example.org'',
         date_hdr = None, walk = [text_part]\<rparr>
      else
        \<lparr>subject_hdr = Some (''Subject '' @ raw), from_hdr = Some ''a@example.org'',
         date_hdr = None, walk = [text_part]\<rparr>)"

text \<open>\<^verbatim>\<open>decode_header\<close> on the headers of the example: the one header with an encoded
  word gives the two chunks Python gives, a header without one is returned whole.\<close>

definition example_decode_header :: "string \<Rightarrow> exn + (hvalue \<times> string option) list" where
  "example_decode_header h =
     (if h = ''Re: =?utf-8?q?Hello?=''
      then Inr [(Bytes ''Re: '', None), (Bytes ''Hello'', Some ''utf-8'')]
      else Inr [(Str h, None)])"

definition example_lib :: lib where
  "example_lib =
     \<lparr>message_from_bytes = example_parse,
      decode_header = example_decode_header,
      bytes_decode = (\<lambda>b charset. if charset = ''utf-8'' then Inr b else Inl LookupError),
      secure_filename = secure_filename_posix\<rparr>"

definition example_server :: "bytes list \<Rightarrow> imap_server" where
  "example_server ids =
     \<lparr>connect_r = Inr (), starttls_r = Inr (), login_r = Inr (),
      select_r = (\<lambda>_. Inr ()),
      search_r = (\<lambda>_. Inr ids),
      fetch_r = (\<lambda>_ num _. if num = ''9'' then Inl (ServerError ''fetch failed'')
                            else Inr [Some (num, ''m'' @ num)]),
      logout_r = Inr ()\<rparr>"

definition example_smtp :: smtp_server where
  "example_smtp =
     \<lparr>smtp_connect_r = Inr (), ehlo_r = Inr (), smtp_starttls_r = Inr (),
      smtp_login_r = Inr (), sendmail_r = (\<lambda>_ _ _ _. Inr ()), quit_r = Inr ()\<rparr>"

subsection \<open>Notions the properties are stated with\<close>

text \<open>The summary the streaming endpoint has for an identifier: the one its inner
  \<^verbatim>\<open>try\<close> builds when the fetch and the decoding both succeed, none otherwise.\<close>

definition stream_ok :: "lib \<Rightarrow> imap_server \<Rightarrow> bytes \<Rightarrow> summary option" where
  "stream_ok L srv eid =
     (case fetch_r srv ''inbox'' eid stream_spec of
        Inl _ \<Rightarrow> None
      | Inr msg_data \<Rightarrow>
          (case stream_entry L eid msg_data of Inr (Some info) \<Rightarrow> Some info | _ \<Rightarrow> None))"

text \<open>The message \<open>num\<close>, fetched with \<open>spec\<close>, arrives and has no Subject header.\<close>

definition no_subject_fetch :: "lib \<Rightarrow> imap_server \<Rightarrow> string \<Rightarrow> bytes \<Rightarrow> string \<Rightarrow> bool" where
  "no_subject_fetch L srv folder num spec =
     (case fetch_r srv folder num spec of
        Inl _ \<Rightarrow> False
      | Inr msg_data \<Rightarrow>
          (case first_raw msg_data of
             Inl _ \<Rightarrow> False
           | Inr raw \<Rightarrow> subject_hdr (message_from_bytes L raw) = None))"

text \<open>The parts both attachment loops keep: not a multipart container, with a
  Content-Disposition and a non-empty file name.\<close>

definition is_attachment :: "part \<Rightarrow> bool" where
  "is_attachment p =
     (get_content_maintype p \<noteq> ''multipart'' \<and> get_content_disposition p \<noteq> None \<and>
      truthy (get_filename p))"

text \<open>The body of a request parsed to a JSON object.\<close>

definition is_json_object :: "exn + jval \<Rightarrow> bool" where
  "is_json_object request_json =
     (case request_json of Inr (JObj _) \<Rightarrow> True | _ \<Rightarrow> False)"


section \<open>Properties\<close>

lemmas io_defs = io_bind_def io_call_def io_ret_def io_lift_def

lemmas model_defs =
  list_emails_def list_headers_def connect_imap_def slice_from_def email_entry_def
  header_entry_def header_spec_def first_raw_def decode_subject_def decode_first_chunk_def
  send_mail_def send_email_call_def py_get_def dict_get_def is_json_object_def
  send_email_def connect_smtp_def generate_def list_mails_def stream_item_def
  stream_entry_def stream_spec_def list_attachments_def list_attachments_body_def
  download_attachment_def download_body_def cache_key_def truthy_def payload_size_def
  stream_ok_def no_subject_fetch_def is_attachment_def Let_def

lemmas example_defs =
  example_lib_def example_server_def example_parse_def example_decode_header_def
  text_part_def root_part_def file_part_def example_smtp_def
  secure_filename_posix_def strip_dots_def safe_char_def is_space_def

subsection \<open>Closing the connection\<close>

text \<open>
  The two attachment handlers close what they open: once the constructor has returned,
  the trace of the call is the connection, what the body did on it, and one logout at
  the end, whatever happened in between.
\<close>

lemma list_attachments_logout_once:
  assumes "truthy email_id" and "connect_r srv = Inr ()"
  shows "\<exists>evs. snd (list_attachments L srv email_id tr) = tr @ EConnect # evs @ [ELogout] \<and>
           ELogout \<notin> set evs"
  using assms
  by (auto simp: list_attachments_def list_attachments_body_def io_defs
      split: sum.splits prod.splits)

lemma download_attachment_logout_once:
  assumes "truthy email_id" and "truthy filename" and "connect_r srv = Inr ()"
    and "c (cache_key (case email_id of Some i \<Rightarrow> i | None \<Rightarrow> [])
                      (case filename of Some f \<Rightarrow> f | None \<Rightarrow> [])) = None"
  shows "\<exists>evs. snd (snd (download_attachment L srv c email_id filename tr)) =
             tr @ EConnect # evs @ [ELogout] \<and> ELogout \<notin> set evs"
  using assms
  by (auto simp: download_attachment_def download_body_def io_defs Let_def
      split: sum.splits prod.splits dl_result.splits)

text \<open>
  C1. For every invocation of a mail-session operation (\<^verbatim>\<open>list_emails\<close>,
  \<^verbatim>\<open>list_headers\<close>, \<^verbatim>\<open>list_attachments\<close>, \<^verbatim>\<open>send_email\<close>) the connection opened is
  closed (logout/quit) exactly once on every exit path, also when the operation in
  between raises. The methods of \<^verbatim>\<open>MailClient\<close> do not: on the example mailbox whose
  second message cannot be fetched, \<^verbatim>\<open>list_emails\<close> and \<^verbatim>\<open>list_headers\<close> leave with the
  exception after the connection, the login, the selection, the search and two fetches,
  and no logout; \<^verbatim>\<open>send_email\<close> on a relay that rejects the message leaves without
  \<^verbatim>\<open>quit\<close>.
\<close>

theorem mailclient_leaves_connection_open:
  "list_emails example_lib (example_server [''1'', ''9'']) True ''INBOX'' 10 [] =
     (Inl (ServerError ''fetch failed''),
      [EConnect, ELogin, ESelect ''INBOX'', ESearch,
       EFetch ''1'' ''(RFC822)'', EFetch ''9'' ''(RFC822)'']) \<and>
   list_headers example_lib (example_server [''1'', ''9'']) True ''INBOX'' 10 [] =
     (Inl (ServerError ''fetch failed''),
      [EConnect, ELogin, ESelect ''INBOX'', ESearch,
       EFetch ''1'' header_spec, EFetch ''9'' header_spec]) \<and>
   send_email (example_smtp\<lparr>sendmail_r := \<lambda>_ _ _ _. Inl (ServerError ''rejected'')\<rparr>)
       ''b@example.org'' ''s'' ''b'' ''plain'' [] =
     (Inl (ServerError ''rejected''),
      [ESmtpConnect, ESmtpEhlo, ESmtpStarttls, ESmtpLogin, ESendmail ''b@example.org''])"
  by (simp add: model_defs io_defs example_defs)

subsection \<open>The size of the listing\<close>

lemma list_emails_loop_length:
  "list_emails_loop L srv folder nums acc tr = (Inr out, tr') \<Longrightarrow>
     length out = length acc + length nums"
proof (induction nums arbitrary: acc tr)
  case Nil
  then show ?case by (simp add: io_defs)
next
  case (Cons num nums)
  then show ?case
    by (fastforce simp: io_defs split: sum.splits prod.splits)
qed

text \<open>With a positive limit the batch listing keeps to it.\<close>

lemma list_emails_positive_limit:
  assumes "0 < limit" and "list_emails L srv use_ssl folder limit tr = (Inr emails, tr')"
  shows "length emails \<le> nat limit"
proof -
  from assms(2) obtain ids tr1 tr2 where
    "list_emails_loop L srv folder (slice_from ids (- limit)) [] tr1 = (Inr emails, tr2)"
    by (auto simp: list_emails_def io_defs split: sum.splits prod.splits)
  from list_emails_loop_length[OF this]
  have "length emails = length (slice_from ids (- limit))" by simp
  also have "\<dots> \<le> nat limit"
    using assms(1) by (simp add: slice_from_def)
  finally show ?thesis .
qed

text \<open>
  C2. For every folder and every non-negative limit the summary listing (the batch
  \<^verbatim>\<open>list_emails\<close> and the streaming \<^verbatim>\<open>/listmails\<close>) returns at most limit entries, in
  ascending arrival order. On a mailbox of two messages \<^verbatim>\<open>list_emails\<close> with limit 0
  returns both (\<^verbatim>\<open>email_ids[-0:]\<close> is the whole list), and \<^verbatim>\<open>/listmails\<close> with limit 1
  yields both (its window is \<^verbatim>\<open>[-10:]\<close>, the limit is never read).
\<close>

theorem limit_exceeded:
  "fst (list_emails example_lib (example_server [''1'', ''2'']) True ''INBOX'' 0 []) =
     Inr [\<lparr>s_email_id = None, s_subject = ''Subject m1'',
            s_from = Some ''a@example.org'', s_date = None\<rparr>,
          \<lparr>s_email_id = None, s_subject = ''Subject m2'',
            s_from = Some ''a@example.org'', s_date = None\<rparr>] \<and>
   fst (list_mails example_lib (example_server [''1'', ''2'']) 1 []) =
     [Open,
      Item \<lparr>s_email_id = Some ''1'', s_subject = ''Subject m1'',
             s_from = Some ''a@example.org'', s_date = None\<rparr>,
      Comma,
      Item \<lparr>s_email_id = Some ''2'', s_subject = ''Subject m2'',
             s_from = Some ''a@example.org'', s_date = None\<rparr>,
      Close]"
  by (simp add: model_defs io_defs example_defs)

subsection \<open>One bad message in a batch\<close>

text \<open>
  C3. For every batch in which one message fails to fetch or decode, the summary
  listing leaves that message out and still returns the summaries of all the others
  (five identifiers, message 3 malformed: four summaries). The streaming endpoint does
  so; \<^verbatim>\<open>list_emails\<close> has no \<^verbatim>\<open>try\<close> in its loop and the whole call fails at message 3,
  with no summary at all and messages 4 and 5 never fetched.
\<close>

theorem bad_message_aborts_batch:
  "list_emails example_lib (example_server [''1'', ''2'', ''3'', ''4'', ''5''])
       True ''INBOX'' 5 [] =
     (Inl TypeError,
      [EConnect, ELogin, ESelect ''INBOX'', ESearch, EFetch ''1'' ''(RFC822)'',
       EFetch ''2'' ''(RFC822)'', EFetch ''3'' ''(RFC822)'']) \<and>
   filter (\<lambda>c. c \<noteq> Comma)
       (fst (list_mails example_lib (example_server [''1'', ''2'', ''3'', ''4'', ''5'']) 5 [])) =
     [Open,
      Item \<lparr>s_email_id = Some ''1'', s_subject = ''Subject m1'',
             s_from = Some ''a@example.org'', s_date = None\<rparr>,
      Item \<lparr>s_email_id = Some ''2'', s_subject = ''Subject m2'',
             s_from = Some ''a@example.org'', s_date = None\<rparr>,
      Item \<lparr>s_email_id = Some ''4'', s_subject = ''Subject m4'',
             s_from = Some ''a@example.org'', s_date = None\<rparr>,
      Item \<lparr>s_email_id = Some ''5'', s_subject = ''Subject m5'',
             s_from = Some ''a@example.org'', s_date = None\<rparr>,
      Close]"
  by (simp add: model_defs io_defs example_defs)

subsection \<open>The attachment cache\<close>

lemma download_attachment_SendFile:
  assumes "download_attachment L srv c eid fn tr = (SendFile data mime name, c', tr')"
  shows "\<exists>e f. eid = Some e \<and> fn = Some f \<and> e \<noteq> [] \<and> f \<noteq> [] \<and> name = f \<and> c' (cache_key e f) = Some data"
  using assms
  by (auto simp: download_attachment_def Let_def truthy_def
      split: if_splits option.splits prod.splits sum.splits dl_result.splits)


lemma download_attachment_hit:
  assumes "c (cache_key eid fn) = Some cached" "eid \<noteq> []" "fn \<noteq> []"
  shows "download_attachment L srv c (Some eid) (Some fn) tr = (SendFile cached None fn, c, tr)"
  using assms by (simp add: download_attachment_def truthy_def)

text \<open>
  C4. For every (message identifier, filename) pair whose first \<^verbatim>\<open>download_attachment\<close>
  succeeds, a second call with the same pair performs no fetch or decode and returns
  the same bytes: whatever the server and the library would then answer, and whatever
  was done before, the second call adds no event to the trace, leaves the cache as it
  is and sends the bytes of the first.
\<close>

theorem download_attachment_cached:
  assumes "download_attachment L srv c (Some eid) (Some fn) tr = (SendFile data mime name, c', tr')"
  shows "download_attachment L' srv' c' (Some eid) (Some fn) tr'' =
           (SendFile data None fn, c', tr'')"
proof -
  from download_attachment_SendFile[OF assms]
  have "eid \<noteq> []" "fn \<noteq> []" "c' (cache_key eid fn) = Some data"
    by auto
  then show ?thesis
    by (simp add: download_attachment_hit)
qed

theorem download_attachment_cached_witness:
  "download_attachment example_lib (example_server []) Map.empty
       (Some ''6'') (Some ''a.txt'') [] =
     (SendFile ''DATA'' (Some ''application/pdf'') ''a.txt'', [''6_a.txt'' \<mapsto> ''DATA''],
      [EConnect, ELogin, ESelect ''inbox'', EFetch ''6'' ''(RFC822)'', ELogout]) \<and>
   download_attachment example_lib ((example_server [])\<lparr>connect_r := Inl (ServerError ''down'')\<rparr>)
       [''6_a.txt'' \<mapsto> ''DATA''] (Some ''6'') (Some ''a.txt'') [] =
     (SendFile ''DATA'' None ''a.txt'', [''6_a.txt'' \<mapsto> ''DATA''], [])"
proof -
  have first: "download_attachment example_lib (example_server []) Map.empty
       (Some ''6'') (Some ''a.txt'') [] =
     (SendFile ''DATA'' (Some ''application/pdf'') ''a.txt'', [''6_a.txt'' \<mapsto> ''DATA''],
      [EConnect, ELogin, ESelect ''inbox'', EFetch ''6'' ''(RFC822)'', ELogout])"
    by (simp add: model_defs io_defs example_defs)
  show ?thesis
    by (rule conjI[OF first download_attachment_cached[OF first]])
qed

lemma download_loop_found:
  "download_loop L ps fn = Inr (DlFound data mime) \<Longrightarrow>
     \<exists>p \<in> set ps. \<exists>w n. is_attachment p \<and> get_filename p = Some w \<and>
        decode_first_chunk L w = Inr n \<and> secure_filename L n = fn \<and> get_payload p = Some data"
proof (induction ps)
  case Nil
  then show ?case by simp
next
  case (Cons p ps)
  show ?case
  proof (cases "is_attachment p")
    case False
    with Cons.prems have "download_loop L ps fn = Inr (DlFound data mime)"
      by (auto simp: is_attachment_def truthy_def split: if_splits option.splits)
    from Cons.IH[OF this] show ?thesis by auto
  next
    case True
    then obtain w where w: "get_filename p = Some w" "w \<noteq> []"
      and mp: "get_content_maintype p \<noteq> ''multipart''" "get_content_disposition p \<noteq> None"
      by (auto simp: is_attachment_def truthy_def split: option.splits)
    show ?thesis
    proof (cases "decode_first_chunk L w")
      case (Inl e)
      with Cons.prems w mp show ?thesis by simp
    next
      case (Inr n)
      show ?thesis
      proof (cases "secure_filename L n = fn")
        case False
        with Cons.prems w mp Inr have "download_loop L ps fn = Inr (DlFound data mime)"
          by simp
        from Cons.IH[OF this] show ?thesis by auto
      next
        case eq: True
        with Cons.prems w mp Inr have "get_payload p = Some data"
          by (simp split: option.splits if_splits)
        with True w Inr eq show ?thesis by auto
      qed
    qed
  qed
qed

lemma download_attachment_store:
  assumes "download_attachment L srv c (Some eid) (Some fn) tr = (resp, c', tr')"
    and "c' \<noteq> c"
  shows "\<exists>env raw rest p w n data mime.
           fetch_r srv ''inbox'' eid ''(RFC822)'' = Inr (Some (env, raw) # rest) \<and>
           p \<in> set (walk (message_from_bytes L raw)) \<and> get_filename p = Some w \<and>
           decode_first_chunk L w = Inr n \<and> fn = secure_filename L n \<and>
           get_payload p = Some data \<and>
           c' = c(cache_key eid (secure_filename L n) \<mapsto> data) \<and>
           resp = SendFile data (Some mime) (secure_filename L n)"
proof -
  from assms obtain tr2 data mime where
    b: "download_body L srv eid fn (tr @ [EConnect]) = (Inr (DlFound data mime), tr2)"
    and r: "resp = SendFile data (Some mime) fn" "c' = c(cache_key eid fn \<mapsto> data)"
    by (auto simp: download_attachment_def Let_def io_call_def
        split: if_splits option.splits prod.splits sum.splits dl_result.splits)
  from b obtain env raw rest where
    f: "fetch_r srv ''inbox'' eid ''(RFC822)'' = Inr (Some (env, raw) # rest)"
    and l: "download_loop L (walk (message_from_bytes L raw)) fn = Inr (DlFound data mime)"
    by (auto simp: download_body_def io_defs
        split: sum.splits prod.splits list.splits option.splits)
  from download_loop_found[OF l] f r show ?thesis by blast
qed

text \<open>
  C5, as the specification states it: every cache lookup and store of
  \<^verbatim>\<open>download_attachment\<close> uses the sanitized filename as the filename component of the
  key, and the caller-provided filename is never used directly. The lookup is made
  under the caller's filename as given. After \<^verbatim>\<open>a.txt\<close> of message 6 has been downloaded
  and cached, a request for \<^verbatim>\<open>../a.txt\<close> (which sanitizes to \<^verbatim>\<open>a.txt\<close>) misses the
  cache, goes to the server and finds no part of that name.
\<close>

theorem lookup_uses_caller_filename:
  "download_attachment example_lib (example_server []) Map.empty
       (Some ''6'') (Some ''a.txt'') [] =
     (SendFile ''DATA'' (Some ''application/pdf'') ''a.txt'', [''6_a.txt'' \<mapsto> ''DATA''],
      [EConnect, ELogin, ESelect ''inbox'', EFetch ''6'' ''(RFC822)'', ELogout]) \<and>
   secure_filename example_lib ''../a.txt'' = ''a.txt'' \<and>
   [''6_a.txt'' \<mapsto> ''DATA''] (cache_key ''6'' (secure_filename example_lib ''../a.txt'')) =
     Some ''DATA'' \<and>
   download_attachment example_lib (example_server []) [''6_a.txt'' \<mapsto> ''DATA'']
       (Some ''6'') (Some ''../a.txt'') [] =
     (JsonError AttachmentNotFound 404, [''6_a.txt'' \<mapsto> ''DATA''],
      [EConnect, ELogin, ESelect ''inbox'', EFetch ''6'' ''(RFC822)'', ELogout])"
  by (simp add: model_defs io_defs example_defs)

text \<open>
  C5, amended. The lookup is keyed by the identifier and the filename of the request as
  given: when that key is cached, the call answers from the cache under the requested
  name. Every store is made under a key whose filename component is the sanitized
  (\<^verbatim>\<open>secure_filename\<close>) name of a part of the fetched message, and the response of that
  call names the download with it: the wire-provided filename is never used directly.
\<close>

theorem download_attachment_keys:
  "(c (cache_key eid fn) = Some cached \<and> eid \<noteq> [] \<and> fn \<noteq> [] \<longrightarrow>
      download_attachment L srv c (Some eid) (Some fn) tr = (SendFile cached None fn, c, tr)) \<and>
   (download_attachment L srv c (Some eid) (Some fn) tr = (resp, c', tr') \<and> c' \<noteq> c \<longrightarrow>
      (\<exists>env raw rest p w n data mime.
          fetch_r srv ''inbox'' eid ''(RFC822)'' = Inr (Some (env, raw) # rest) \<and>
          p \<in> set (walk (message_from_bytes L raw)) \<and> get_filename p = Some w \<and>
          decode_first_chunk L w = Inr n \<and> fn = secure_filename L n \<and>
          get_payload p = Some data \<and>
          c' = c(cache_key eid (secure_filename L n) \<mapsto> data) \<and>
          resp = SendFile data (Some mime) (secure_filename L n)))"
proof (intro conjI impI)
  assume "c (cache_key eid fn) = Some cached \<and> eid \<noteq> [] \<and> fn \<noteq> []"
  then show "download_attachment L srv c (Some eid) (Some fn) tr = (SendFile cached None fn, c, tr)"
    by (simp add: download_attachment_hit)
next
  assume "download_attachment L srv c (Some eid) (Some fn) tr = (resp, c', tr') \<and> c' \<noteq> c"
  then have r: "download_attachment L srv c (Some eid) (Some fn) tr = (resp, c', tr')"
    and n: "c' \<noteq> c"
    by simp_all
  from download_attachment_store[OF r n]
  show "\<exists>env raw rest p w n data mime.
          fetch_r srv ''inbox'' eid ''(RFC822)'' = Inr (Some (env, raw) # rest) \<and>
          p \<in> set (walk (message_from_bytes L raw)) \<and> get_filename p = Some w \<and>
          decode_first_chunk L w = Inr n \<and> fn = secure_filename L n \<and>
          get_payload p = Some data \<and>
          c' = c(cache_key eid (secure_filename L n) \<mapsto> data) \<and>
          resp = SendFile data (Some mime) (secure_filename L n)" .
qed

theorem download_attachment_keys_witness:
  "([''6_a.txt'' \<mapsto> ''DATA''] (cache_key ''6'' ''a.txt'') = Some ''DATA'' \<and>
    download_attachment example_lib (example_server []) [''6_a.txt'' \<mapsto> ''DATA'']
        (Some ''6'') (Some ''a.txt'') [] =
      (SendFile ''DATA'' None ''a.txt'', [''6_a.txt'' \<mapsto> ''DATA''], [])) \<and>
   (download_attachment example_lib (example_server []) Map.empty
        (Some ''6'') (Some ''a.txt'') [] =
      (SendFile ''DATA'' (Some ''application/pdf'') ''a.txt'', [''6_a.txt'' \<mapsto> ''DATA''],
       [EConnect, ELogin, ESelect ''inbox'', EFetch ''6'' ''(RFC822)'', ELogout]) \<and>
    [''6_a.txt'' \<mapsto> ''DATA''] \<noteq> (Map.empty :: cache) \<and>
    (\<exists>env raw rest p w n data mime.
        fetch_r (example_server []) ''inbox'' ''6'' ''(RFC822)'' = Inr (Some (env, raw) # rest) \<and>
        p \<in> set (walk (message_from_bytes example_lib raw)) \<and> get_filename p = Some w \<and>
        decode_first_chunk example_lib w = Inr n \<and> ''a.txt'' = secure_filename example_lib n \<and>
        get_payload p = Some data \<and>
        [''6_a.txt'' \<mapsto> ''DATA''] =
          Map.empty(cache_key ''6'' (secure_filename example_lib n) \<mapsto> data) \<and>
        SendFile ''DATA'' (Some ''application/pdf'') ''a.txt'' =
          SendFile data (Some mime) (secure_filename example_lib n)))"
proof -
  have hit: "[''6_a.txt'' \<mapsto> ''DATA''] (cache_key ''6'' ''a.txt'') = Some ''DATA'' \<and>
             ''6'' \<noteq> [] \<and> ''a.txt'' \<noteq> []"
    by (simp add: cache_key_def)
  have store: "download_attachment example_lib (example_server []) Map.empty
        (Some ''6'') (Some ''a.txt'') [] =
      (SendFile ''DATA'' (Some ''application/pdf'') ''a.txt'', [''6_a.txt'' \<mapsto> ''DATA''],
       [EConnect, ELogin, ESelect ''inbox'', EFetch ''6'' ''(RFC822)'', ELogout]) \<and>
      [''6_a.txt'' \<mapsto> ''DATA''] \<noteq> (Map.empty :: cache)"
    by (simp add: model_defs io_defs example_defs)
  note a = download_attachment_keys[of "[''6_a.txt'' \<mapsto> ''DATA'']" "''6''" "''a.txt''" "''DATA''"
      example_lib "example_server []" "[]", THEN conjunct1, rule_format, OF hit]
  note b = download_attachment_keys[of Map.empty "''6''" "''a.txt''" _
      example_lib "example_server []" "[]", THEN conjunct2, rule_format, OF store]
  from hit store a b show ?thesis
    by (intro conjI) simp_all
qed

subsection \<open>The attachment manifest\<close>






subsection \<open>Header decoding\<close>

text \<open>
  C7. For every header value containing encoded words, the decoder yields the plain
  decoded string of the value, each encoded word decoded with its charset (UTF-8 when
  none is declared). The handlers read only the first chunk \<^verbatim>\<open>decode_header\<close> returns:
  for the Subject \<^verbatim>\<open>Re: =?utf-8?q?Hello?=\<close>, two chunks, the decoded subject is \<^verbatim>\<open>Re: \<close>
  and the encoded word is lost.
\<close>

theorem subject_first_chunk_only:
  "decode_header example_lib ''Re: =?utf-8?q?Hello?='' =
     Inr [(Bytes ''Re: '', None), (Bytes ''Hello'', Some ''utf-8'')] \<and>
   decode_subject example_lib (Some ''Re: =?utf-8?q?Hello?='') = Inr ''Re: '' \<and>
   fst (list_emails example_lib (example_server [''8'']) True ''INBOX'' 10 []) =
     Inr [\<lparr>s_email_id = None, s_subject = ''Re: '',
            s_from = Some ''a@example.org'', s_date = None\<rparr>]"
  by (simp add: model_defs io_defs example_defs)

subsection \<open>Sending\<close>




text \<open>A complete request does reach the relay, and a truthy field that is not a
  string connects before the email library refuses it.\<close>

lemma send_mail_examples:
  "send_mail example_smtp
       (Inr (JObj [(''to'', JStr ''b@example.org''), (''subject'', JStr ''hi''),
                   (''body'', JStr ''text'')])) [] =
     (Inr (JsonMessage ''Email sent successfully''),
      [ESmtpConnect, ESmtpEhlo, ESmtpStarttls, ESmtpLogin, ESendmail ''b@example.org'',
       ESmtpQuit]) \<and>
   send_mail example_smtp
       (Inr (JObj [(''to'', JNum 5), (''subject'', JStr ''hi''), (''body'', JStr ''text'')])) [] =
     (Inr (JsonError (ExnText AttributeError) 500),
      [ESmtpConnect, ESmtpEhlo, ESmtpStarttls, ESmtpLogin])"
  by (simp add: model_defs io_defs example_defs)

subsection \<open>The streaming listing\<close>

lemma generate_loop_items:
  "generate_loop L srv eids first out tr = (out', tr') \<Longrightarrow>
     \<exists>body. out' = out @ body \<and>
       filter (\<lambda>c. c \<noteq> Comma) body = map Item (List.map_filter (stream_ok L srv) eids)"
proof (induction eids arbitrary: first out tr)
  case Nil
  then show ?case by (simp add: List.map_filter_simps)
next
  case (Cons eid eids)
  obtain r tr1 where it: "stream_item L srv eid tr = (r, tr1)"
    by (cases "stream_item L srv eid tr")
  then have r: "r = (case fetch_r srv ''inbox'' eid stream_spec of
                       Inl e \<Rightarrow> Inl e | Inr md \<Rightarrow> stream_entry L eid md)"
    by (auto simp: stream_item_def io_defs split: sum.splits)
  let ?out1 = "if \<not> first then out @ [Comma] else out"
  show ?case
  proof (cases r)
    case (Inl e)
    with Cons.prems it have "generate_loop L srv eids False ?out1 tr1 = (out', tr')"
      by (simp add: Let_def)
    from Cons.IH[OF this] obtain body where
      b: "out' = ?out1 @ body"
         "filter (\<lambda>c. c \<noteq> Comma) body = map Item (List.map_filter (stream_ok L srv) eids)"
      by blast
    have "stream_ok L srv eid = None"
      using Inl r by (auto simp: stream_ok_def split: sum.splits)
    with b show ?thesis
      by (cases first) (auto simp: List.map_filter_simps)
  next
    case (Inr v)
    show ?thesis
    proof (cases v)
      case None
      with Inr Cons.prems it have "generate_loop L srv eids False ?out1 tr1 = (out', tr')"
        by (simp add: Let_def)
      from Cons.IH[OF this] obtain body where
        b: "out' = ?out1 @ body"
           "filter (\<lambda>c. c \<noteq> Comma) body = map Item (List.map_filter (stream_ok L srv) eids)"
        by blast
      have "stream_ok L srv eid = None"
        using Inr None r by (auto simp: stream_ok_def split: sum.splits)
      with b show ?thesis
        by (cases first) (auto simp: List.map_filter_simps)
    next
      case (Some info)
      with Inr Cons.prems it
      have "generate_loop L srv eids False (?out1 @ [Item info]) tr1 = (out', tr')"
        by (simp add: Let_def)
      from Cons.IH[OF this] obtain body where
        b: "out' = (?out1 @ [Item info]) @ body"
           "filter (\<lambda>c. c \<noteq> Comma) body = map Item (List.map_filter (stream_ok L srv) eids)"
        by blast
      have "stream_ok L srv eid = Some info"
        using Inr Some r by (auto simp: stream_ok_def split: sum.splits)
      with b show ?thesis
        by (cases first) (auto simp: List.map_filter_simps)
    qed
  qed
qed

lemma generate_start_failure:
  assumes "connect_r srv = Inl e \<or> (connect_r srv = Inr () \<and> login_r srv = Inl e)"
  shows "fst (generate L srv tr) = [ErrorObj e]"
  using assms by (auto simp: generate_def io_defs)

lemma generate_items:
  assumes "connect_r srv = Inr ()" "login_r srv = Inr ()" "select_r srv ''inbox'' = Inr ()"
    and "search_r srv ''inbox'' = Inr email_ids"
  shows "\<exists>body. fst (generate L srv tr) =
            Open # body @ Close # (case logout_r srv of Inl e \<Rightarrow> [ErrorObj e] | Inr _ \<Rightarrow> []) \<and>
          filter (\<lambda>c. c \<noteq> Comma) body =
            map Item (List.map_filter (stream_ok L srv) (slice_from email_ids (- 10)))"
proof -
  let ?tr2 = "tr @ [EConnect, ELogin, ESelect ''inbox'', ESearch]"
  obtain out tr3 where
    lp: "generate_loop L srv (slice_from email_ids (- 10)) True [Open] ?tr2 = (out, tr3)"
    by (cases "generate_loop L srv (slice_from email_ids (- 10)) True [Open] ?tr2")
  from generate_loop_items[OF lp] obtain body where
    b: "out = [Open] @ body"
       "filter (\<lambda>c. c \<noteq> Comma) body =
          map Item (List.map_filter (stream_ok L srv) (slice_from email_ids (- 10)))"
    by blast
  have "fst (generate L srv tr) =
          out @ Close # (case logout_r srv of Inl e \<Rightarrow> [ErrorObj e] | Inr _ \<Rightarrow> [])"
    using assms lp by (simp add: generate_def io_defs split: sum.splits)
  with b show ?thesis by auto
qed


text \<open>
  C9. When the connection or the login fails at the start, the streaming listing
  produces exactly one error element and ends. After a successful start (connection,
  login, selection and search), a failure on one item is swallowed and the sequence
  continues: between the opening and the closing bracket there are only commas and
  the summaries of the identifiers of the window that could be fetched and decoded,
  all of them and in order.
\<close>

theorem generate_failures:
  "(connect_r srv = Inl e \<or> (connect_r srv = Inr () \<and> login_r srv = Inl e) \<longrightarrow>
      fst (generate L srv tr) = [ErrorObj e]) \<and>
   (connect_r srv = Inr () \<and> login_r srv = Inr () \<and> select_r srv ''inbox'' = Inr () \<and>
    search_r srv ''inbox'' = Inr email_ids \<longrightarrow>
      (\<exists>body. fst (generate L srv tr) =
           Open # body @ Close # (case logout_r srv of Inl e \<Rightarrow> [ErrorObj e] | Inr _ \<Rightarrow> []) \<and>
         filter (\<lambda>c. c \<noteq> Comma) body =
           map Item (List.map_filter (stream_ok L srv) (slice_from email_ids (- 10)))))"
proof (intro conjI impI)
  assume "connect_r srv = Inl e \<or> (connect_r srv = Inr () \<and> login_r srv = Inl e)"
  then show "fst (generate L srv tr) = [ErrorObj e]"
    by (rule generate_start_failure)
next
  assume "connect_r srv = Inr () \<and> login_r srv = Inr () \<and> select_r srv ''inbox'' = Inr () \<and>
    search_r srv ''inbox'' = Inr email_ids"
  then have "connect_r srv = Inr ()" "login_r srv = Inr ()" "select_r srv ''inbox'' = Inr ()"
    "search_r srv ''inbox'' = Inr email_ids"
    by simp_all
  then show "\<exists>body. fst (generate L srv tr) =
           Open # body @ Close # (case logout_r srv of Inl e \<Rightarrow> [ErrorObj e] | Inr _ \<Rightarrow> []) \<and>
         filter (\<lambda>c. c \<noteq> Comma) body =
           map Item (List.map_filter (stream_ok L srv) (slice_from email_ids (- 10)))"
    by (rule generate_items)
qed

theorem generate_failures_witness:
  "(login_r ((example_server [''1''])\<lparr>login_r := Inl (ServerError ''auth'')\<rparr>) =
      Inl (ServerError ''auth'') \<and>
    fst (generate example_lib ((example_server [''1''])\<lparr>login_r := Inl (ServerError ''auth'')\<rparr>) []) =
      [ErrorObj (ServerError ''auth'')]) \<and>
   (search_r (example_server [''1'', ''2'', ''3'', ''4'', ''5'']) ''inbox'' =
      Inr [''1'', ''2'', ''3'', ''4'', ''5''] \<and>
    List.map_filter (stream_ok example_lib (example_server [''1'', ''2'', ''3'', ''4'', ''5'']))
        (slice_from [''1'', ''2'', ''3'', ''4'', ''5''] (- 10)) =
      [\<lparr>s_email_id = Some ''1'', s_subject = ''Subject m1'',
         s_from = Some ''a@example.org'', s_date = None\<rparr>,
       \<lparr>s_email_id = Some ''2'', s_subject = ''Subject m2'',
         s_from = Some ''a@example.org'', s_date = None\<rparr>,
       \<lparr>s_email_id = Some ''4'', s_subject = ''Subject m4'',
         s_from = Some ''a@example.org'', s_date = None\<rparr>,
       \<lparr>s_email_id = Some ''5'', s_subject = ''Subject m5'',
         s_from = Some ''a@example.org'', s_date = None\<rparr>] \<and>
    (\<exists>body. fst (generate example_lib (example_server [''1'', ''2'', ''3'', ''4'', ''5'']) []) =
         Open # body @ [Close] \<and>
       filter (\<lambda>c. c \<noteq> Comma) body =
         map Item (List.map_filter
           (stream_ok example_lib (example_server [''1'', ''2'', ''3'', ''4'', ''5'']))
           (slice_from [''1'', ''2'', ''3'', ''4'', ''5''] (- 10)))))"
proof -
  let ?bad = "(example_server [''1''])\<lparr>login_r := Inl (ServerError ''auth'')\<rparr>"
  let ?srv = "example_server [''1'', ''2'', ''3'', ''4'', ''5'']"
  have h1: "connect_r ?bad = Inl (ServerError ''auth'') \<or>
            (connect_r ?bad = Inr () \<and> login_r ?bad = Inl (ServerError ''auth''))"
    by (simp add: example_server_def)
  have h2: "connect_r ?srv = Inr () \<and> login_r ?srv = Inr () \<and> select_r ?srv ''inbox'' = Inr () \<and>
            search_r ?srv ''inbox'' = Inr [''1'', ''2'', ''3'', ''4'', ''5'']"
    by (simp add: example_server_def)
  have l: "logout_r ?srv = Inr ()"
    by (simp add: example_server_def)
  have m: "List.map_filter (stream_ok example_lib ?srv)
        (slice_from [''1'', ''2'', ''3'', ''4'', ''5''] (- 10)) =
      [\<lparr>s_email_id = Some ''1'', s_subject = ''Subject m1'',
         s_from = Some ''a@example.org'', s_date = None\<rparr>,
       \<lparr>s_email_id = Some ''2'', s_subject = ''Subject m2'',
         s_from = Some ''a@example.org'', s_date = None\<rparr>,
       \<lparr>s_email_id = Some ''4'', s_subject = ''Subject m4'',
         s_from = Some ''a@example.org'', s_date = None\<rparr>,
       \<lparr>s_email_id = Some ''5'', s_subject = ''Subject m5'',
         s_from = Some ''a@example.org'', s_date = None\<rparr>]"
    by (simp add: model_defs example_defs List.map_filter_simps)
  note a = generate_failures[of ?bad "ServerError ''auth''" example_lib "[]",
      THEN conjunct1, rule_format, OF h1]
  note b = generate_failures[of ?srv _ example_lib "[]" "[''1'', ''2'', ''3'', ''4'', ''5'']",
      THEN conjunct2, rule_format, OF h2, unfolded l, simplified]
  have "login_r ?bad = Inl (ServerError ''auth'')"
    by (simp add: example_server_def)
  moreover have "search_r ?srv ''inbox'' = Inr [''1'', ''2'', ''3'', ''4'', ''5'']"
    using h2 by simp
  ultimately show ?thesis
    using a b m by (intro conjI)
qed

subsection \<open>A message without a Subject\<close>

lemma list_emails_loop_no_subject:
  assumes "num \<in> set nums"
    and "fetch_r srv folder num ''(RFC822)'' = Inr md"
    and "first_raw md = Inr raw"
    and "subject_hdr (message_from_bytes L raw) = None"
  shows "\<exists>e tr'. list_emails_loop L srv folder nums acc tr = (Inl e, tr')"
  using assms(1)
proof (induction nums arbitrary: acc tr)
  case Nil
  then show ?case by simp
next
  case (Cons n nums)
  show ?case
  proof (cases "n = num")
    case True
    then show ?thesis
      using assms(2-4) by (simp add: io_defs email_entry_def decode_subject_def)
  next
    case False
    with Cons.prems have "num \<in> set nums" by simp
    then show ?thesis
      using Cons.IH by (simp add: io_defs split: sum.splits prod.splits)
  qed
qed

lemma list_headers_loop_no_subject:
  assumes "num \<in> set nums"
    and "fetch_r srv folder num header_spec = Inr md"
    and "first_raw md = Inr raw"
    and "subject_hdr (message_from_bytes L raw) = None"
  shows "\<exists>e tr'. list_headers_loop L srv folder nums acc tr = (Inl e, tr')"
  using assms(1)
proof (induction nums arbitrary: acc tr)
  case Nil
  then show ?case by simp
next
  case (Cons n nums)
  show ?case
  proof (cases "n = num")
    case True
    then show ?thesis
      using assms(2-4) by (simp add: io_defs header_entry_def decode_subject_def)
  next
    case False
    with Cons.prems have "num \<in> set nums" by simp
    then show ?thesis
      using Cons.IH by (simp add: io_defs split: sum.splits prod.splits)
  qed
qed

lemma list_emails_fails:
  assumes "\<And>tr. \<exists>e tr'. list_emails_loop L srv folder (slice_from ids (- limit)) [] tr = (Inl e, tr')"
    and "search_r srv folder = Inr ids"
  shows "\<exists>e tr'. list_emails L srv use_ssl folder limit tr = (Inl e, tr')"
proof -
  obtain r tr1 where c: "io_bind (connect_imap srv use_ssl) (\<lambda>_.
     io_call (ESelect folder) (select_r srv folder)) tr = (r, tr1)"
    by (cases "io_bind (connect_imap srv use_ssl) (\<lambda>_.
     io_call (ESelect folder) (select_r srv folder)) tr")
  show ?thesis
  proof (cases r)
    case (Inl e)
    with c show ?thesis
      by (auto simp: list_emails_def io_defs split: sum.splits prod.splits)
  next
    case (Inr u)
    from assms(1)[of "tr1 @ [ESearch]"] obtain e tr' where
      "list_emails_loop L srv folder (slice_from ids (- limit)) [] (tr1 @ [ESearch]) = (Inl e, tr')"
      by blast
    with c Inr assms(2) show ?thesis
      by (auto simp: list_emails_def io_defs split: sum.splits prod.splits)
  qed
qed

lemma list_headers_fails:
  assumes "\<And>tr. \<exists>e tr'. list_headers_loop L srv folder (slice_from ids (- limit)) [] tr = (Inl e, tr')"
    and "search_r srv folder = Inr ids"
  shows "\<exists>e tr'. list_headers L srv use_ssl folder limit tr = (Inl e, tr')"
proof -
  obtain r tr1 where c: "io_bind (connect_imap srv use_ssl) (\<lambda>_.
     io_call (ESelect folder) (select_r srv folder)) tr = (r, tr1)"
    by (cases "io_bind (connect_imap srv use_ssl) (\<lambda>_.
     io_call (ESelect folder) (select_r srv folder)) tr")
  show ?thesis
  proof (cases r)
    case (Inl e)
    with c show ?thesis
      by (auto simp: list_headers_def io_defs split: sum.splits prod.splits)
  next
    case (Inr u)
    from assms(1)[of "tr1 @ [ESearch]"] obtain e tr' where
      "list_headers_loop L srv folder (slice_from ids (- limit)) [] (tr1 @ [ESearch]) = (Inl e, tr')"
      by blast
    with c Inr assms(2) show ?thesis
      by (auto simp: list_headers_def io_defs split: sum.splits prod.splits)
  qed
qed

text \<open>
  C10. A fetched message whose Subject header is absent makes the subject decoding run
  on a missing value and raise, so \<^verbatim>\<open>list_emails\<close> and \<^verbatim>\<open>list_headers\<close> abort instead of
  returning a summary with an empty subject: \<^verbatim>\<open>decode_header(None)\<close> raises TypeError,
  and when a message of the selected window arrives without a Subject, the call
  returns no list but an exception.
\<close>

theorem missing_subject_aborts:
  assumes "search_r srv folder = Inr email_ids"
    and "num \<in> set (slice_from email_ids (- limit))"
  shows "decode_subject L None = Inl TypeError \<and>
         (no_subject_fetch L srv folder num ''(RFC822)'' \<longrightarrow>
            (\<exists>e tr'. list_emails L srv use_ssl folder limit tr = (Inl e, tr'))) \<and>
         (no_subject_fetch L srv folder num header_spec \<longrightarrow>
            (\<exists>e tr'. list_headers L srv use_ssl folder limit tr = (Inl e, tr')))"
proof (intro conjI impI)
  show "decode_subject L None = Inl TypeError"
    by (simp add: decode_subject_def)
next
  assume "no_subject_fetch L srv folder num ''(RFC822)''"
  then obtain md raw where
    "fetch_r srv folder num ''(RFC822)'' = Inr md" "first_raw md = Inr raw"
    "subject_hdr (message_from_bytes L raw) = None"
    by (auto simp: no_subject_fetch_def split: sum.splits)
  from list_emails_loop_no_subject[OF assms(2) this]
  show "\<exists>e tr'. list_emails L srv use_ssl folder limit tr = (Inl e, tr')"
    by (intro list_emails_fails[OF _ assms(1)])
next
  assume "no_subject_fetch L srv folder num header_spec"
  then obtain md raw where
    "fetch_r srv folder num header_spec = Inr md" "first_raw md = Inr raw"
    "subject_hdr (message_from_bytes L raw) = None"
    by (auto simp: no_subject_fetch_def split: sum.splits)
  from list_headers_loop_no_subject[OF assms(2) this]
  show "\<exists>e tr'. list_headers L srv use_ssl folder limit tr = (Inl e, tr')"
    by (intro list_headers_fails[OF _ assms(1)])
qed

theorem missing_subject_aborts_witness:
  "search_r (example_server [''1'', ''2'', ''3'', ''4'', ''5'']) ''INBOX'' =
     Inr [''1'', ''2'', ''3'', ''4'', ''5''] \<and>
   ''3'' \<in> set (slice_from [''1'', ''2'', ''3'', ''4'', ''5''] (- 10)) \<and>
   no_subject_fetch example_lib (example_server [''1'', ''2'', ''3'', ''4'', ''5''])
     ''INBOX'' ''3'' ''(RFC822)'' \<and>
   no_subject_fetch example_lib (example_server [''1'', ''2'', ''3'', ''4'', ''5''])
     ''INBOX'' ''3'' header_spec \<and>
   (\<exists>e tr'. list_emails example_lib (example_server [''1'', ''2'', ''3'', ''4'', ''5''])
       True ''INBOX'' 10 [] = (Inl e, tr')) \<and>
   (\<exists>e tr'. list_headers example_lib (example_server [''1'', ''2'', ''3'', ''4'', ''5''])
       True ''INBOX'' 10 [] = (Inl e, tr')) \<and>
   fst (list_emails example_lib (example_server [''1'', ''2'', ''3'', ''4'', ''5''])
       True ''INBOX'' 10 []) = Inl TypeError"
proof -
  let ?srv = "example_server [''1'', ''2'', ''3'', ''4'', ''5'']"
  have h1: "search_r ?srv ''INBOX'' = Inr [''1'', ''2'', ''3'', ''4'', ''5'']"
    by (simp add: example_server_def)
  have h2: "''3'' \<in> set (slice_from [''1'', ''2'', ''3'', ''4'', ''5''] (- 10))"
    by (simp add: slice_from_def)
  have n1: "no_subject_fetch example_lib ?srv ''INBOX'' ''3'' ''(RFC822)''"
    by (simp add: model_defs example_defs)
  have n2: "no_subject_fetch example_lib ?srv ''INBOX'' ''3'' header_spec"
    by (simp add: model_defs example_defs)
  have v: "fst (list_emails example_lib ?srv True ''INBOX'' 10 []) = Inl TypeError"
    by (simp add: model_defs io_defs example_defs)
  note t = missing_subject_aborts[OF h1 h2, of example_lib True "[]"]
  from t n1 have a: "\<exists>e tr'. list_emails example_lib ?srv True ''INBOX'' 10 [] = (Inl e, tr')"
    by blast
  from t n2 have b: "\<exists>e tr'. list_headers example_lib ?srv True ''INBOX'' 10 [] = (Inl e, tr')"
    by blast
  from h1 h2 n1 n2 a b v show ?thesis
    by (intro conjI)
qed

end
